theory Spec2Isabelle
  imports Complex_Main "HOL-Library.Word"
begin

section \<open>Scalars\<close>

text \<open>
  The layers of the elevation map hold C++ floating-point numbers. A scalar is a finite
  number, one of the two infinities, or not-a-number. Arithmetic on finite scalars is the
  arithmetic of the reals (rounding is not part of this development, and the two zeros are
  one: a division by zero takes the sign of the numerator); the operations follow IEEE 754
  on the infinities and on not-a-number, which the program uses as markers: not-a-number
  for a cell without data, plus infinity for a variance that has grown past its maximum.
\<close>

datatype scalar = Finite real | PosInf | NegInf | NaN

fun isnan :: "scalar \<Rightarrow> bool" where
  "isnan NaN = True"
| "isnan _ = False"

fun isfinite :: "scalar \<Rightarrow> bool" where
  "isfinite (Finite _) = True"
| "isfinite _ = False"

text \<open>\<open>x < y\<close>; every comparison with not-a-number is false.\<close>

fun less_s :: "scalar \<Rightarrow> scalar \<Rightarrow> bool" where
  "less_s (Finite a) (Finite b) = (a < b)"
| "less_s (Finite _) PosInf = True"
| "less_s NegInf (Finite _) = True"
| "less_s NegInf PosInf = True"
| "less_s _ _ = False"

text \<open>\<open>x <= y\<close>.\<close>

fun le_s :: "scalar \<Rightarrow> scalar \<Rightarrow> bool" where
  "le_s (Finite a) (Finite b) = (a \<le> b)"
| "le_s (Finite _) PosInf = True"
| "le_s NegInf (Finite _) = True"
| "le_s NegInf PosInf = True"
| "le_s PosInf PosInf = True"
| "le_s NegInf NegInf = True"
| "le_s PosInf (Finite _) = False"
| "le_s PosInf NegInf = False"
| "le_s (Finite _) NegInf = False"
| "le_s NaN _ = False"
| "le_s _ NaN = False"

fun neg_s :: "scalar \<Rightarrow> scalar" where
  "neg_s (Finite a) = Finite (- a)"
| "neg_s PosInf = NegInf"
| "neg_s NegInf = PosInf"
| "neg_s NaN = NaN"

fun abs_s :: "scalar \<Rightarrow> scalar" where
  "abs_s (Finite a) = Finite \<bar>a\<bar>"
| "abs_s PosInf = PosInf"
| "abs_s NegInf = PosInf"
| "abs_s NaN = NaN"

fun add_s :: "scalar \<Rightarrow> scalar \<Rightarrow> scalar" where
  "add_s (Finite a) (Finite b) = Finite (a + b)"
| "add_s NaN _ = NaN"
| "add_s _ NaN = NaN"
| "add_s PosInf NegInf = NaN"
| "add_s NegInf PosInf = NaN"
| "add_s PosInf _ = PosInf"
| "add_s NegInf _ = NegInf"
| "add_s _ PosInf = PosInf"
| "add_s _ NegInf = NegInf"

definition sub_s :: "scalar \<Rightarrow> scalar \<Rightarrow> scalar" where
  "sub_s x y = add_s x (neg_s y)"

text \<open>The infinity with the sign of a nonzero real.\<close>

definition inf_of_sign :: "real \<Rightarrow> scalar" where
  "inf_of_sign a = (if 0 < a then PosInf else NegInf)"

fun mul_s :: "scalar \<Rightarrow> scalar \<Rightarrow> scalar" where
  "mul_s (Finite a) (Finite b) = Finite (a * b)"
| "mul_s NaN _ = NaN"
| "mul_s _ NaN = NaN"
| "mul_s (Finite a) PosInf = (if a = 0 then NaN else inf_of_sign a)"
| "mul_s (Finite a) NegInf = (if a = 0 then NaN else inf_of_sign (- a))"
| "mul_s PosInf (Finite b) = (if b = 0 then NaN else inf_of_sign b)"
| "mul_s NegInf (Finite b) = (if b = 0 then NaN else inf_of_sign (- b))"
| "mul_s PosInf PosInf = PosInf"
| "mul_s NegInf NegInf = PosInf"
| "mul_s PosInf NegInf = NegInf"
| "mul_s NegInf PosInf = NegInf"

fun div_s :: "scalar \<Rightarrow> scalar \<Rightarrow> scalar" where
  "div_s (Finite a) (Finite b) =
     (if b = 0 then (if a = 0 then NaN else inf_of_sign a) else Finite (a / b))"
| "div_s NaN _ = NaN"
| "div_s _ NaN = NaN"
| "div_s (Finite _) PosInf = Finite 0"
| "div_s (Finite _) NegInf = Finite 0"
| "div_s PosInf (Finite b) = (if 0 \<le> b then PosInf else NegInf)"
| "div_s NegInf (Finite b) = (if 0 \<le> b then NegInf else PosInf)"
| "div_s PosInf PosInf = NaN"
| "div_s PosInf NegInf = NaN"
| "div_s NegInf PosInf = NaN"
| "div_s NegInf NegInf = NaN"

fun sqrt_s :: "scalar \<Rightarrow> scalar" where
  "sqrt_s (Finite a) = (if a < 0 then NaN else Finite (sqrt a))"
| "sqrt_s PosInf = PosInf"
| "sqrt_s _ = NaN"

text \<open>\<open>pow(x, 2)\<close>.\<close>

definition pow2_s :: "scalar \<Rightarrow> scalar" where
  "pow2_s x = mul_s x x"

text \<open>The sum of the coefficients of an array (Eigen's \<open>sum()\<close>; zero for an empty one).\<close>

definition sum_s :: "scalar list \<Rightarrow> scalar" where
  "sum_s xs = foldr add_s xs (Finite 0)"

section \<open>The variance clamp\<close>

text \<open>
  \<open>VarianceClampOperator::operator()\<close> of ElevationMappingHelpers.hpp:
  \<^verbatim>\<open>x < minVariance_ ? minVariance_ : (x > maxVariance_ ? infinity : x)\<close>
\<close>

definition VarianceClampOperator :: "scalar \<Rightarrow> scalar \<Rightarrow> scalar \<Rightarrow> scalar" where
  "VarianceClampOperator minVariance maxVariance x =
     (if less_s x minVariance then minVariance
      else (if less_s maxVariance x then PosInf else x))"

section \<open>The grid maps\<close>

text \<open>
  An index is an \<open>Eigen::Array2i\<close> (row, column); a position and a side length are
  pairs of scalars. \<open>any()\<close> of an integer array holds when some coefficient is
  nonzero.
\<close>

type_synonym index = "int \<times> int"
type_synonym vector2 = "scalar \<times> scalar"

definition any_a :: "index \<Rightarrow> bool" where
  "any_a a = (fst a \<noteq> 0 \<or> snd a \<noteq> 0)"

text \<open>
  A dense matrix: its run-time dimensions and its coefficients. The dimensions are
  integers as \<open>Array2i(m.rows(), m.cols())\<close> holds them, for matrices of fewer than
  \<open>2\<^sup>3\<^sup>1\<close> rows and columns. The layers of a grid map have the dimensions of its
  buffer, so that \<open>+=\<close> in \<open>update\<close>, which runs after the check of the
  dimensions, adds matrices of one shape.
\<close>

record Matrix =
  rows :: int
  cols :: int
  coeff :: "index \<Rightarrow> scalar"

definition dims :: "Matrix \<Rightarrow> index" where
  "dims m = (rows m, cols m)"

text \<open>\<open>m.unaryExpr(f)\<close>, \<open>m += d\<close> and \<open>m.setConstant(v)\<close>.\<close>

definition unaryExpr :: "(scalar \<Rightarrow> scalar) \<Rightarrow> Matrix \<Rightarrow> Matrix" where
  "unaryExpr f m = m\<lparr>coeff := (\<lambda>i. f (coeff m i))\<rparr>"

definition plus_assign :: "Matrix \<Rightarrow> Matrix \<Rightarrow> Matrix" where
  "plus_assign m d = m\<lparr>coeff := (\<lambda>i. add_s (coeff m i) (coeff d i))\<rparr>"

definition setConstant :: "scalar \<Rightarrow> Matrix \<Rightarrow> Matrix" where
  "setConstant v m = m\<lparr>coeff := (\<lambda>i. v)\<rparr>"

text \<open>
  The layers are addressed by name. The raw map is built with all five, the fused map
  with elevation, variance and color; the program reads and writes no other name.
\<close>

datatype layer = Elevation | Variance | HorizontalVarianceX | HorizontalVarianceY | Color

record GridMap =
  data :: "layer \<Rightarrow> Matrix"
  timestamp :: "64 word"
  mapLength :: vector2
  mapPosition :: vector2
  resolution :: scalar
  bufferSize :: index
  bufferStartIndex :: index

definition get :: "GridMap \<Rightarrow> layer \<Rightarrow> Matrix" where
  "get g l = data g l"

definition at_l :: "GridMap \<Rightarrow> layer \<Rightarrow> index \<Rightarrow> scalar" where
  "at_l g l i = coeff (data g l) i"

text \<open>Assignment through the reference \<open>at(l, i)\<close> (\<open>at_l\<close> reads it).\<close>

definition set_at :: "GridMap \<Rightarrow> layer \<Rightarrow> index \<Rightarrow> scalar \<Rightarrow> GridMap" where
  "set_at g l i v = g\<lparr>data := (data g)(l := (data g l)\<lparr>coeff := (coeff (data g l))(i := v)\<rparr>)\<rparr>"

definition set_layer :: "GridMap \<Rightarrow> layer \<Rightarrow> Matrix \<Rightarrow> GridMap" where
  "set_layer g l m = g\<lparr>data := (data g)(l := m)\<rparr>"

definition setTimestamp :: "GridMap \<Rightarrow> 64 word \<Rightarrow> GridMap" where
  "setTimestamp g t = g\<lparr>timestamp := t\<rparr>"

text \<open>
  Modelled from the spec: \<open>GridMap::isValid\<close> and \<open>GridMap::clearAll\<close> of the grid
  library, which is not part of the sources. A cell is invalid (a hole) when its elevation
  or its variance is unset, the sentinel being not-a-number; these two layers are the
  clear types the constructor of the elevation map registers. \<open>clearAll\<close> clears every
  layer, which leaves the whole map invalid.
\<close>

definition isValid :: "GridMap \<Rightarrow> index \<Rightarrow> bool" where
  "isValid g i = (\<not> isnan (at_l g Elevation i) \<and> \<not> isnan (at_l g Variance i))"

definition clearAll :: "GridMap \<Rightarrow> GridMap" where
  "clearAll g = g\<lparr>data := (\<lambda>l. setConstant NaN (data g l))\<rparr>"

text \<open>
  The rest of what the program calls and the sources do not hold is a parameter of the
  development: the geometry of the grid library (\<open>getIndex\<close>, which fails for a
  position outside the map; \<open>getPosition\<close> of a cell; \<open>getSubmapInformation\<close>,
  which returns the top left index, the buffer size, the position and the length of the
  submap and the requested index in it; the indices a \<open>SubmapIterator\<close> visits, in
  order), the packing of a color into a scalar, and \<open>erfc\<close> of the C library.
\<close>

record Externals =
  getIndex :: "GridMap \<Rightarrow> vector2 \<Rightarrow> index option"
  getPosition :: "GridMap \<Rightarrow> index \<Rightarrow> vector2"
  getSubmapInformation ::
    "vector2 \<Rightarrow> vector2 \<Rightarrow> vector2 \<Rightarrow> vector2 \<Rightarrow> scalar \<Rightarrow> index \<Rightarrow> index
      \<Rightarrow> index \<times> index \<times> vector2 \<times> vector2 \<times> index"
  SubmapIterator :: "GridMap \<Rightarrow> index \<Rightarrow> index \<Rightarrow> index list"
  colorVectorToValue :: "int \<times> int \<times> int \<Rightarrow> scalar"
  erfc :: "scalar \<Rightarrow> scalar"

section \<open>The elevation map\<close>

record ElevationMap =
  rawMap :: GridMap
  fusedMap :: GridMap
  minVariance :: scalar
  maxVariance :: scalar
  mahalanobisDistanceThreshold :: scalar
  multiHeightNoise :: scalar
  minHorizontalVariance :: scalar
  maxHorizontalVariance :: scalar

record PointXYZRGB =
  point_x :: scalar
  point_y :: scalar
  point_z :: scalar
  getRGBVector3i :: "int \<times> int \<times> int"

record PointCloud =
  points :: "PointXYZRGB list"
  stamp :: "64 word"

subsection \<open>clean\<close>

definition clean :: "ElevationMap \<Rightarrow> ElevationMap" where
  "clean em =
    (let r0 = rawMap em;
         r1 = set_layer r0 Variance
                (unaryExpr (VarianceClampOperator (minVariance em) (maxVariance em))
                  (get r0 Variance));
         r2 = set_layer r1 HorizontalVarianceX
                (unaryExpr (VarianceClampOperator (minHorizontalVariance em)
                  (maxHorizontalVariance em)) (get r1 HorizontalVarianceX));
         r3 = set_layer r2 HorizontalVarianceY
                (unaryExpr (VarianceClampOperator (minHorizontalVariance em)
                  (maxHorizontalVariance em)) (get r2 HorizontalVarianceY))
     in em\<lparr>rawMap := r3\<rparr>)"

subsection \<open>add\<close>

text \<open>
  The body of the loop of \<open>add\<close> for a point that lies in the map at \<open>index\<close>, with
  its variance \<open>pointVariance\<close>. The references \<open>elevation\<close>, \<open>variance\<close>, ... of the
  source are the cells of the raw map at \<open>index\<close>; the new variance of the fused
  branch is computed from the old variance, as the elevation is assigned first and the
  variance is not read in between.
\<close>

definition mahalanobisDistance :: "scalar \<Rightarrow> scalar \<Rightarrow> scalar \<Rightarrow> scalar" where
  "mahalanobisDistance z elevation variance =
     sqrt_s (div_s (pow2_s (sub_s z elevation)) variance)"

definition add_point ::
  "Externals \<Rightarrow> ElevationMap \<Rightarrow> PointXYZRGB \<Rightarrow> scalar \<Rightarrow> index \<Rightarrow> ElevationMap" where
  "add_point X em point pointVariance index =
    (let r = rawMap em;
         elevation = at_l r Elevation index;
         variance = at_l r Variance index;
         z = point_z point
     in if \<not> isValid r index then
          em\<lparr>rawMap :=
            set_at (set_at (set_at (set_at (set_at r
              Elevation index z)
              Variance index pointVariance)
              HorizontalVarianceX index (minHorizontalVariance em))
              HorizontalVarianceY index (minHorizontalVariance em))
              Color index (colorVectorToValue X (getRGBVector3i point))\<rparr>
        else if less_s (mahalanobisDistance z elevation variance)
                  (mahalanobisDistanceThreshold em) then
          em\<lparr>rawMap :=
            set_at (set_at (set_at r
              Elevation index
                (div_s (add_s (mul_s variance z) (mul_s pointVariance elevation))
                       (add_s variance pointVariance)))
              Variance index
                (div_s (mul_s pointVariance variance) (add_s pointVariance variance)))
              Color index (colorVectorToValue X (getRGBVector3i point))\<rparr>
        else
          em\<lparr>rawMap :=
            set_at (set_at (set_at r
              Variance index (add_s variance (multiHeightNoise em)))
              HorizontalVarianceX index (minHorizontalVariance em))
              HorizontalVarianceY index (minHorizontalVariance em)\<rparr>)"

text \<open>
  The loop over the points, \<open>i\<close> counting them. A point outside the map is skipped
  before its variance is read. \<open>pointCloudVariances(i)\<close> past the end of the vector
  is a failed assertion of the matrix library: the result \<open>None\<close>.
\<close>

fun add_loop ::
  "Externals \<Rightarrow> PointXYZRGB list \<Rightarrow> scalar list \<Rightarrow> nat \<Rightarrow> ElevationMap
    \<Rightarrow> ElevationMap option" where
  "add_loop X [] pointCloudVariances i em = Some em"
| "add_loop X (point # rest) pointCloudVariances i em =
    (case getIndex X (rawMap em) (point_x point, point_y point) of
       None \<Rightarrow> add_loop X rest pointCloudVariances (Suc i) em
     | Some index \<Rightarrow>
         if i < length pointCloudVariances
         then add_loop X rest pointCloudVariances (Suc i)
                (add_point X em point (pointCloudVariances ! i) index)
         else None)"

definition add ::
  "Externals \<Rightarrow> ElevationMap \<Rightarrow> PointCloud \<Rightarrow> scalar list
    \<Rightarrow> (bool \<times> ElevationMap) option" where
  "add X em pointCloud pointCloudVariances =
    (case add_loop X (points pointCloud) pointCloudVariances 0 em of
       None \<Rightarrow> None
     | Some em1 \<Rightarrow>
         (let em2 = clean em1
          in Some (True,
               em2\<lparr>rawMap := setTimestamp (rawMap em2) (1000 * stamp pointCloud)\<rparr>)))"

subsection \<open>update\<close>

text \<open>The time is given by its nanoseconds, \<open>time.toNSec()\<close>.\<close>

definition update ::
  "ElevationMap \<Rightarrow> Matrix \<Rightarrow> Matrix \<Rightarrow> Matrix \<Rightarrow> 64 word \<Rightarrow> bool \<times> ElevationMap" where
  "update em varianceUpdate horizontalVarianceUpdateX horizontalVarianceUpdateY time =
    (let size = bufferSize (rawMap em)
     in if \<not> (dims varianceUpdate = size \<and>
               dims horizontalVarianceUpdateX = size \<and>
               dims horizontalVarianceUpdateY = size)
        then (False, em)
        else
          (let r0 = rawMap em;
               r1 = set_layer r0 Variance (plus_assign (get r0 Variance) varianceUpdate);
               r2 = set_layer r1 HorizontalVarianceX
                      (plus_assign (get r1 HorizontalVarianceX) horizontalVarianceUpdateX);
               r3 = set_layer r2 HorizontalVarianceY
                      (plus_assign (get r2 HorizontalVarianceY) horizontalVarianceUpdateY);
               em1 = clean (em\<lparr>rawMap := r3\<rparr>)
           in (True, em1\<lparr>rawMap := setTimestamp (rawMap em1) time\<rparr>)))"

subsection \<open>fuse\<close>

definition cumulativeDistributionFunction ::
  "Externals \<Rightarrow> scalar \<Rightarrow> scalar \<Rightarrow> scalar \<Rightarrow> scalar" where
  "cumulativeDistributionFunction X x mean standardDeviation =
     mul_s (Finite (1 / 2))
       (erfc X (div_s (neg_s (sub_s x mean)) (mul_s standardDeviation (Finite (sqrt 2)))))"

text \<open>
  The weight of the cell \<open>i\<close> of a submap: the product of the two probabilities. In the
  source \<open>submapPosition\<close> is the position \<open>getSubmapInformation\<close> wrote back.
\<close>

definition cell_weight :: "Externals \<Rightarrow> GridMap \<Rightarrow> vector2 \<Rightarrow> index \<Rightarrow> scalar" where
  "cell_weight X rawMapCopy submapPosition i =
    (let position = getPosition X rawMapCopy i;
         dx = abs_s (sub_s (fst position) (fst submapPosition));
         dy = abs_s (sub_s (snd position) (snd submapPosition));
         half = div_s (resolution rawMapCopy) (Finite 2);
         sx = sqrt_s (at_l rawMapCopy HorizontalVarianceX i);
         sy = sqrt_s (at_l rawMapCopy HorizontalVarianceY i);
         probabilityX =
           sub_s (cumulativeDistributionFunction X (add_s dx half) (Finite 0) sx)
                 (cumulativeDistributionFunction X (sub_s dx half) (Finite 0) sx);
         probabilityY =
           sub_s (cumulativeDistributionFunction X (add_s dy half) (Finite 0) sy)
                 (cumulativeDistributionFunction X (sub_s dy half) (Finite 0) sy)
     in mul_s probabilityX probabilityY)"

text \<open>
  The two statistics of the source, over the arrays of the gathered cells:
  \<^verbatim>\<open>mean = (weights * means).sum() / weights.sum()\<close> and
  \<^verbatim>\<open>variance = (weights * (variances.square() + means.square())).sum()
             / weights.sum() - pow(mean, 2)\<close>.
\<close>

definition fused_mean :: "scalar list \<Rightarrow> scalar list \<Rightarrow> scalar" where
  "fused_mean weights means = div_s (sum_s (map2 mul_s weights means)) (sum_s weights)"

definition fused_variance :: "scalar list \<Rightarrow> scalar list \<Rightarrow> scalar list \<Rightarrow> scalar" where
  "fused_variance weights means variances =
     sub_s
       (div_s
          (sum_s (map2 mul_s weights (map2 add_s (map pow2_s variances) (map pow2_s means))))
          (sum_s weights))
       (pow2_s (fused_mean weights means))"

text \<open>The body of the loop of \<open>fuse\<close> over the requested area, for the cell \<open>i\<close>.\<close>

definition fuse_cell :: "Externals \<Rightarrow> GridMap \<Rightarrow> GridMap \<Rightarrow> index \<Rightarrow> GridMap" where
  "fuse_cell X rawMapCopy fused i =
    (if isValid fused i then fused
     else if \<not> isValid rawMapCopy i then fused
     else
      (let requestedLength =
             (mul_s (Finite 4) (sqrt_s (at_l rawMapCopy HorizontalVarianceX i)),
              mul_s (Finite 4) (sqrt_s (at_l rawMapCopy HorizontalVarianceY i)));
           requestedPosition = getPosition X rawMapCopy i;
           (submapTopLeftIndex, submapBufferSize, submapPosition, submapLength,
             requestedIndexInSubmap) =
             getSubmapInformation X requestedPosition requestedLength
               (mapLength rawMapCopy) (mapPosition rawMapCopy) (resolution rawMapCopy)
               (bufferSize rawMapCopy) (bufferStartIndex rawMapCopy);
           cells = filter (isValid rawMapCopy)
                     (SubmapIterator X rawMapCopy submapTopLeftIndex submapBufferSize);
           means = map (at_l rawMapCopy Elevation) cells;
           variances = map (at_l rawMapCopy Variance) cells;
           weights = map (cell_weight X rawMapCopy submapPosition) cells
       in if cells = [] then
            set_at (set_at (set_at fused
              Elevation i (at_l rawMapCopy Elevation i))
              Variance i (at_l rawMapCopy Variance i))
              Color i (at_l rawMapCopy Color i)
          else
            (let mean = fused_mean weights means;
                 variance = fused_variance weights means variances
             in if \<not> (isfinite variance \<and> isfinite mean) then fused
                else
                  set_at (set_at (set_at fused
                    Elevation i mean)
                    Variance i variance)
                    Color i (at_l rawMapCopy Color i))))"

definition fuse_area :: "Externals \<Rightarrow> GridMap \<Rightarrow> GridMap \<Rightarrow> index list \<Rightarrow> GridMap" where
  "fuse_area X rawMapCopy fused cells = foldl (fuse_cell X rawMapCopy) fused cells"

definition resetFusedData :: "ElevationMap \<Rightarrow> ElevationMap" where
  "resetFusedData em = em\<lparr>fusedMap := setTimestamp (clearAll (fusedMap em)) 0\<rparr>"

text \<open>
  \<^verbatim>\<open>if (size.any() == 0) return false;\<close> compares the truth value of \<open>any()\<close>
  with zero (\<open>areaSize\<close> is the parameter \<open>size\<close>).
\<close>

definition fuse :: "Externals \<Rightarrow> ElevationMap \<Rightarrow> index \<Rightarrow> index \<Rightarrow> bool \<times> ElevationMap" where
  "fuse X em topLeftIndex areaSize =
    (if \<not> any_a areaSize then (False, em)
     else
      (let rawMapCopy = rawMap em;
           em1 = (if timestamp (fusedMap em) \<noteq> timestamp rawMapCopy
                  then resetFusedData em else em);
           fused = fuse_area X rawMapCopy (fusedMap em1)
                     (SubmapIterator X rawMapCopy topLeftIndex areaSize)
       in (True, em1\<lparr>fusedMap := setTimestamp fused (timestamp rawMapCopy)\<rparr>)))"

definition fuseAll :: "Externals \<Rightarrow> ElevationMap \<Rightarrow> bool \<times> ElevationMap" where
  "fuseAll X em = fuse X em (0, 0) (bufferSize (fusedMap em))"

section \<open>Definitions that follow the words of the specification\<close>

text \<open>
  The discrepancy statistic of the point integrator as the specification writes it:
  \<open>d = |pointHeight - cellElevation| / sqrt(cellVariance)\<close>. The source computes
  \<open>mahalanobisDistance\<close> above.
\<close>

definition discrepancy :: "scalar \<Rightarrow> scalar \<Rightarrow> scalar \<Rightarrow> scalar" where
  "discrepancy pointHeight cellElevation cellVariance =
     div_s (abs_s (sub_s pointHeight cellElevation)) (sqrt_s cellVariance)"

text \<open>
  The fused variance as the specification writes it, the weighted second moment
  \<open>\<Sigma>(w (v + e\<^sup>2)) / \<Sigma>w - \<mu>\<^sup>2\<close> with \<open>\<mu> = \<Sigma>(w e) / \<Sigma>w\<close>. The source computes
  \<open>fused_variance\<close> above.
\<close>

definition second_moment_variance :: "scalar list \<Rightarrow> scalar list \<Rightarrow> scalar list \<Rightarrow> scalar" where
  "second_moment_variance weights means variances =
     sub_s
       (div_s (sum_s (map2 mul_s weights (map2 add_s variances (map pow2_s means))))
              (sum_s weights))
       (pow2_s (div_s (sum_s (map2 mul_s weights means)) (sum_s weights)))"

section \<open>A small map\<close>

text \<open>
  Concrete data on which the theorems below are applied: a map of one row and two
  columns whose cell \<open>(0, 0)\<close> holds an estimate and whose cell \<open>(0, 1)\<close> is a hole,
  with a geometry that puts the centre of the cell \<open>(r, c)\<close> at the position \<open>(r, c)\<close>
  and answers every submap request with the single cell around the requested position.
  \<open>erfc_limits\<close> has the value of \<open>erfc\<close> at zero and its limits on both sides; it
  stands in for \<open>erfc\<close> on this data only.
\<close>

definition example_layer :: "scalar \<Rightarrow> Matrix" where
  "example_layer v = \<lparr>rows = 1, cols = 2, coeff = (\<lambda>i. if i = (0, 0) then v else NaN)\<rparr>"

definition example_raw :: GridMap where
  "example_raw =
    \<lparr>data = (\<lambda>l. case l of
         Elevation \<Rightarrow> example_layer (Finite 1)
       | Variance \<Rightarrow> example_layer (Finite (1 / 100))
       | HorizontalVarianceX \<Rightarrow> example_layer (Finite 1)
       | HorizontalVarianceY \<Rightarrow> example_layer (Finite 1)
       | Color \<Rightarrow> example_layer (Finite 7)),
     timestamp = 5,
     mapLength = (Finite 1, Finite 2),
     mapPosition = (Finite 0, Finite 0),
     resolution = Finite 1,
     bufferSize = (1, 2),
     bufferStartIndex = (0, 0)\<rparr>"

definition example_fused :: GridMap where
  "example_fused =
    \<lparr>data = (\<lambda>l. example_layer (Finite 9)),
     timestamp = 3,
     mapLength = (Finite 1, Finite 2),
     mapPosition = (Finite 0, Finite 0),
     resolution = Finite 1,
     bufferSize = (1, 2),
     bufferStartIndex = (0, 0)\<rparr>"

definition example_map :: ElevationMap where
  "example_map =
    \<lparr>rawMap = example_raw,
     fusedMap = example_fused,
     minVariance = Finite (1 / 10000),
     maxVariance = Finite (1 / 20),
     mahalanobisDistanceThreshold = Finite 3,
     multiHeightNoise = Finite (1 / 1000),
     minHorizontalVariance = Finite (1 / 100),
     maxHorizontalVariance = Finite 2\<rparr>"

definition index_of_position :: "vector2 \<Rightarrow> index option" where
  "index_of_position p =
     (case p of
        (Finite a, Finite b) \<Rightarrow>
          if \<lfloor>a\<rfloor> = 0 \<and> (\<lfloor>b\<rfloor> = 0 \<or> \<lfloor>b\<rfloor> = 1) then Some (\<lfloor>a\<rfloor>, \<lfloor>b\<rfloor>) else None
      | _ \<Rightarrow> None)"

definition submap_indices :: "index \<Rightarrow> index \<Rightarrow> index list" where
  "submap_indices topLeft sz =
     concat (map (\<lambda>r. map (\<lambda>c. (fst topLeft + int r, snd topLeft + int c))
                          [0..<nat (snd sz)])
                 [0..<nat (fst sz)])"

definition erfc_limits :: "scalar \<Rightarrow> scalar" where
  "erfc_limits x =
     (if less_s x (Finite 0) then Finite 2
      else if less_s (Finite 0) x then Finite 0
      else if x = Finite 0 then Finite 1 else NaN)"

definition example_externals :: Externals where
  "example_externals =
    \<lparr>getIndex = (\<lambda>g p. index_of_position p),
     getPosition = (\<lambda>g i. (Finite (of_int (fst i)), Finite (of_int (snd i)))),
     getSubmapInformation = (\<lambda>p l ml mp res bs st.
        (case index_of_position p of
           Some i \<Rightarrow> (i, (1, 1), p, (res, res), (0, 0))
         | None \<Rightarrow> ((0, 0), (0, 0), p, (Finite 0, Finite 0), (0, 0)))),
     SubmapIterator = (\<lambda>g topLeft sz. submap_indices topLeft sz),
     colorVectorToValue = (\<lambda>(r, g, b). Finite (of_int (65536 * r + 256 * g + b))),
     erfc = erfc_limits\<rparr>"

definition example_point :: "scalar \<Rightarrow> PointXYZRGB" where
  "example_point z =
     \<lparr>point_x = Finite 0, point_y = Finite 0, point_z = z, getRGBVector3i = (0, 0, 255)\<rparr>"

text \<open>A matrix of the given dimensions with one value in every coefficient.\<close>

definition constant_matrix :: "index \<Rightarrow> scalar \<Rightarrow> Matrix" where
  "constant_matrix d v = \<lparr>rows = fst d, cols = snd d, coeff = (\<lambda>i. v)\<rparr>"

text \<open>
  The elevation map in the middle of \<open>update\<close>: after the three additions, before
  \<open>clean\<close>.
\<close>

definition added :: "ElevationMap \<Rightarrow> Matrix \<Rightarrow> Matrix \<Rightarrow> Matrix \<Rightarrow> ElevationMap" where
  "added em vU hxU hyU =
     em\<lparr>rawMap := set_layer (set_layer (set_layer (rawMap em)
        Variance (plus_assign (get (rawMap em) Variance) vU))
        HorizontalVarianceX (plus_assign (get (rawMap em) HorizontalVarianceX) hxU))
        HorizontalVarianceY (plus_assign (get (rawMap em) HorizontalVarianceY) hyU)\<rparr>"

section \<open>Facts about scalars\<close>

lemma less_s_irrefl: "\<not> less_s x x"
  by (cases x) simp_all

lemma not_less_PosInf: "\<not> less_s PosInf y"
  by (cases y) simp_all

lemma le_s_not_less: "le_s lo hi \<Longrightarrow> \<not> less_s hi lo"
  by (cases lo; cases hi) simp_all

lemma add_s_commute: "add_s x y = add_s y x"
  by (cases x; cases y) simp_all

lemma mul_s_commute: "mul_s x y = mul_s y x"
  by (cases x; cases y) (simp_all add: mult.commute)

lemma sqrt_hundredth: "sqrt (1 / 100) = 1 / 10"
  by (rule real_sqrt_unique) (simp_all add: power2_eq_square)

lemma sqrt_quotient: "0 < r \<Longrightarrow> sqrt (a * a / r) = \<bar>a\<bar> / sqrt r"
  by (simp add: real_sqrt_divide)

lemma square_div_nonneg: "\<not> r < 0 \<Longrightarrow> \<not> a * a / r < (0::real)"
  by (simp add: not_less)

text \<open>
  Where the discrepancy of the specification is a number or an infinity, the source
  computes the same value.
\<close>

lemma mahalanobis_core:
  "\<not> isnan (div_s (abs_s x) (sqrt_s v)) \<Longrightarrow>
     sqrt_s (div_s (mul_s x x) v) = div_s (abs_s x) (sqrt_s v)"
  by (cases x; cases v)
     (auto simp: inf_of_sign_def sqrt_quotient square_div_nonneg split: if_splits)

lemma mahalanobisDistance_discrepancy:
  "\<not> isnan (discrepancy z e v) \<Longrightarrow> mahalanobisDistance z e v = discrepancy z e v"
  by (simp add: mahalanobisDistance_def discrepancy_def pow2_s_def mahalanobis_core)

lemma less_s_not_nan: "less_s x y \<Longrightarrow> \<not> isnan x"
  by (cases x; cases y) simp_all

lemma le_s_not_nan: "le_s y x \<Longrightarrow> \<not> isnan x"
  by (cases x; cases y) simp_all

section \<open>The variance clamp\<close>

text \<open>
  Claim C6. The variance clamp is an elementwise transform: a value below the minimum
  becomes the minimum; otherwise a value above the maximum becomes plus infinity, not the
  maximum; otherwise the value is unchanged. The cases are taken in this order, and where
  the minimum is at most the maximum every value above the maximum becomes plus infinity.
  \<open>clean\<close> applies the transform to each coefficient of the variance layer with the
  variance bounds and of the two horizontal variance layers with the horizontal variance
  bounds, and leaves the elevation and color layers as they are.
\<close>

theorem VarianceClampOperator_cases:
  "(less_s x lo \<longrightarrow> VarianceClampOperator lo hi x = lo) \<and>
   (\<not> less_s x lo \<and> less_s hi x \<longrightarrow> VarianceClampOperator lo hi x = PosInf) \<and>
   (\<not> less_s x lo \<and> \<not> less_s hi x \<longrightarrow> VarianceClampOperator lo hi x = x) \<and>
   (le_s lo hi \<and> less_s hi x \<longrightarrow> VarianceClampOperator lo hi x = PosInf) \<and>
   at_l (rawMap (clean em)) Variance i =
     VarianceClampOperator (minVariance em) (maxVariance em) (at_l (rawMap em) Variance i) \<and>
   at_l (rawMap (clean em)) HorizontalVarianceX i =
     VarianceClampOperator (minHorizontalVariance em) (maxHorizontalVariance em)
       (at_l (rawMap em) HorizontalVarianceX i) \<and>
   at_l (rawMap (clean em)) HorizontalVarianceY i =
     VarianceClampOperator (minHorizontalVariance em) (maxHorizontalVariance em)
       (at_l (rawMap em) HorizontalVarianceY i) \<and>
   at_l (rawMap (clean em)) Elevation i = at_l (rawMap em) Elevation i \<and>
   at_l (rawMap (clean em)) Color i = at_l (rawMap em) Color i"
proof -
  have ordered: "le_s lo hi \<and> less_s hi x \<longrightarrow> \<not> less_s x lo"
    by (cases x; cases lo; cases hi) simp_all
  have layers: "at_l (rawMap (clean em)) l i =
      (case l of
         Variance \<Rightarrow> VarianceClampOperator (minVariance em) (maxVariance em)
                       (at_l (rawMap em) Variance i)
       | HorizontalVarianceX \<Rightarrow>
           VarianceClampOperator (minHorizontalVariance em) (maxHorizontalVariance em)
             (at_l (rawMap em) HorizontalVarianceX i)
       | HorizontalVarianceY \<Rightarrow>
           VarianceClampOperator (minHorizontalVariance em) (maxHorizontalVariance em)
             (at_l (rawMap em) HorizontalVarianceY i)
       | _ \<Rightarrow> at_l (rawMap em) l i)" for l
    by (cases l) (simp_all add: clean_def Let_def set_layer_def get_def at_l_def unaryExpr_def)
  show ?thesis
    using ordered layers [of Variance] layers [of HorizontalVarianceX]
      layers [of HorizontalVarianceY] layers [of Elevation] layers [of Color]
    by (simp add: VarianceClampOperator_def)
qed

text \<open>
  The example of the specification: with the bounds 0.0001 and 0.05 the variance 0.2
  becomes plus infinity and the variance 0.00001 becomes 0.0001.
\<close>

theorem VarianceClampOperator_cases_witness:
  "VarianceClampOperator (Finite (1 / 10000)) (Finite (1 / 20)) (Finite (1 / 5)) = PosInf \<and>
   VarianceClampOperator (Finite (1 / 10000)) (Finite (1 / 20)) (Finite (1 / 100000))
     = Finite (1 / 10000) \<and>
   VarianceClampOperator (Finite (1 / 10000)) (Finite (1 / 20)) (Finite (1 / 100))
     = Finite (1 / 100) \<and>
   at_l (rawMap (clean example_map)) Variance (0, 0) = Finite (1 / 100)"
proof -
  have above: "VarianceClampOperator (Finite (1 / 10000)) (Finite (1 / 20)) (Finite (1 / 5))
      = PosInf"
    using VarianceClampOperator_cases
      [of "Finite (1 / 5)" "Finite (1 / 10000)" "Finite (1 / 20)" example_map "(0, 0)"]
    by simp
  have below: "VarianceClampOperator (Finite (1 / 10000)) (Finite (1 / 20))
      (Finite (1 / 100000)) = Finite (1 / 10000)"
    using VarianceClampOperator_cases
      [of "Finite (1 / 100000)" "Finite (1 / 10000)" "Finite (1 / 20)" example_map "(0, 0)"]
    by simp
  have within: "VarianceClampOperator (Finite (1 / 10000)) (Finite (1 / 20))
      (Finite (1 / 100)) = Finite (1 / 100)"
    using VarianceClampOperator_cases
      [of "Finite (1 / 100)" "Finite (1 / 10000)" "Finite (1 / 20)" example_map "(0, 0)"]
    by simp
  have "at_l (rawMap (clean example_map)) Variance (0, 0) =
      VarianceClampOperator (minVariance example_map) (maxVariance example_map)
        (at_l (rawMap example_map) Variance (0, 0))"
    using VarianceClampOperator_cases
      [of "Finite (1 / 100)" "Finite (1 / 10000)" "Finite (1 / 20)" example_map "(0, 0)"]
    by blast
  also have "\<dots> = VarianceClampOperator (Finite (1 / 10000)) (Finite (1 / 20))
      (Finite (1 / 100))"
    by (simp add: example_map_def example_raw_def example_layer_def at_l_def)
  finally show ?thesis
    using above below within by simp
qed

text \<open>
  Claim C9. Where the minimum is at most the maximum, the variance clamp is idempotent,
  and plus infinity is a fixed point of it: a variance once forced to plus infinity stays
  plus infinity under every later clamp.
\<close>

theorem VarianceClampOperator_idempotent:
  assumes "le_s lo hi"
  shows "VarianceClampOperator lo hi (VarianceClampOperator lo hi x)
           = VarianceClampOperator lo hi x \<and>
         VarianceClampOperator lo hi PosInf = PosInf"
  using le_s_not_less [OF assms]
  by (auto simp: VarianceClampOperator_def less_s_irrefl not_less_PosInf)

theorem VarianceClampOperator_idempotent_witness:
  "VarianceClampOperator (Finite (1 / 10000)) (Finite (1 / 20))
     (VarianceClampOperator (Finite (1 / 10000)) (Finite (1 / 20)) (Finite (1 / 5))) = PosInf \<and>
   VarianceClampOperator (Finite (1 / 10000)) (Finite (1 / 20)) PosInf = PosInf"
proof -
  have bounds: "le_s (Finite (1 / 10000)) (Finite (1 / 20))"
    by simp
  have once: "VarianceClampOperator (Finite (1 / 10000)) (Finite (1 / 20)) (Finite (1 / 5))
      = PosInf"
    by (simp add: VarianceClampOperator_def)
  show ?thesis
    using VarianceClampOperator_idempotent [OF bounds, of "Finite (1 / 5)"] once
    by simp
qed

section \<open>The point integrator\<close>

lemma at_l_set_at:
  "at_l (set_at g l i v) l' j = (if l' = l \<and> j = i then v else at_l g l' j)"
  by (simp add: at_l_def set_at_def)

lemma timestamp_set_at: "timestamp (set_at g l i v) = timestamp g"
  by (simp add: set_at_def)

lemma add_point_same_surface:
  assumes "isValid (rawMap em) i"
    and "less_s (mahalanobisDistance (point_z p) (at_l (rawMap em) Elevation i)
           (at_l (rawMap em) Variance i)) (mahalanobisDistanceThreshold em)"
  shows "rawMap (add_point X em p pv i) =
    set_at (set_at (set_at (rawMap em)
      Elevation i
        (div_s (add_s (mul_s (at_l (rawMap em) Variance i) (point_z p))
                      (mul_s pv (at_l (rawMap em) Elevation i)))
               (add_s (at_l (rawMap em) Variance i) pv)))
      Variance i
        (div_s (mul_s pv (at_l (rawMap em) Variance i)) (add_s pv (at_l (rawMap em) Variance i))))
      Color i (colorVectorToValue X (getRGBVector3i p))"
  using assms by (simp add: add_point_def Let_def)

lemma add_point_other_surface:
  assumes "isValid (rawMap em) i"
    and "\<not> less_s (mahalanobisDistance (point_z p) (at_l (rawMap em) Elevation i)
           (at_l (rawMap em) Variance i)) (mahalanobisDistanceThreshold em)"
  shows "rawMap (add_point X em p pv i) =
    set_at (set_at (set_at (rawMap em)
      Variance i (add_s (at_l (rawMap em) Variance i) (multiHeightNoise em)))
      HorizontalVarianceX i (minHorizontalVariance em))
      HorizontalVarianceY i (minHorizontalVariance em)"
    and "fusedMap (add_point X em p pv i) = fusedMap em"
  using assms by (simp_all add: add_point_def Let_def)

lemma below_threshold:
  "less_s (discrepancy z e v) t \<Longrightarrow> less_s (mahalanobisDistance z e v) t"
  using less_s_not_nan [of "discrepancy z e v" t] mahalanobisDistance_discrepancy [of z e v]
  by simp

lemma at_or_above_threshold:
  "le_s t (discrepancy z e v) \<Longrightarrow> \<not> less_s (mahalanobisDistance z e v) t"
  using le_s_not_nan [of t "discrepancy z e v"] mahalanobisDistance_discrepancy [of z e v]
    le_s_not_less [of t "discrepancy z e v"]
  by simp

text \<open>The cell \<open>(0, 0)\<close> of the small map, and the two points of the specification's examples.\<close>

lemma example_valid: "isValid (rawMap example_map) (0, 0)"
  by (simp add: isValid_def at_l_def example_map_def example_raw_def example_layer_def)

lemma example_cell:
  "at_l (rawMap example_map) Elevation (0, 0) = Finite 1"
  "at_l (rawMap example_map) Variance (0, 0) = Finite (1 / 100)"
  "at_l (rawMap example_map) HorizontalVarianceX (0, 0) = Finite 1"
  "at_l (rawMap example_map) HorizontalVarianceY (0, 0) = Finite 1"
  "at_l (rawMap example_map) Color (0, 0) = Finite 7"
  by (simp_all add: at_l_def example_map_def example_raw_def example_layer_def)

lemma example_parameters:
  "mahalanobisDistanceThreshold example_map = Finite 3"
  "multiHeightNoise example_map = Finite (1 / 1000)"
  "minHorizontalVariance example_map = Finite (1 / 100)"
  by (simp_all add: example_map_def)

lemma example_discrepancy_near:
  "discrepancy (Finite (21 / 20)) (Finite 1) (Finite (1 / 100)) = Finite (1 / 2)"
  by (simp add: discrepancy_def sub_s_def sqrt_hundredth)

lemma example_discrepancy_far:
  "discrepancy (Finite 5) (Finite 1) (Finite (1 / 100)) = Finite 40"
  by (simp add: discrepancy_def sub_s_def sqrt_hundredth)

text \<open>
  Claim C7. For a point whose target cell is valid and whose discrepancy
  \<open>d = |pointHeight - cellElevation| / sqrt(cellVariance)\<close> is below the Mahalanobis
  threshold, the new elevation of the cell is
  \<open>(cellVariance * pointHeight + pointVariance * cellElevation) / (cellVariance + pointVariance)\<close>,
  its new variance is \<open>(cellVariance * pointVariance) / (cellVariance + pointVariance)\<close>,
  its color is the color of the point, and the horizontal variances are unchanged.
\<close>

theorem add_point_within_threshold:
  assumes "isValid (rawMap em) i"
    and "less_s (discrepancy (point_z p) (at_l (rawMap em) Elevation i)
           (at_l (rawMap em) Variance i)) (mahalanobisDistanceThreshold em)"
  shows "at_l (rawMap (add_point X em p pv i)) Elevation i =
           div_s (add_s (mul_s (at_l (rawMap em) Variance i) (point_z p))
                        (mul_s pv (at_l (rawMap em) Elevation i)))
                 (add_s (at_l (rawMap em) Variance i) pv) \<and>
         at_l (rawMap (add_point X em p pv i)) Variance i =
           div_s (mul_s (at_l (rawMap em) Variance i) pv)
                 (add_s (at_l (rawMap em) Variance i) pv) \<and>
         at_l (rawMap (add_point X em p pv i)) Color i =
           colorVectorToValue X (getRGBVector3i p) \<and>
         at_l (rawMap (add_point X em p pv i)) HorizontalVarianceX j =
           at_l (rawMap em) HorizontalVarianceX j \<and>
         at_l (rawMap (add_point X em p pv i)) HorizontalVarianceY j =
           at_l (rawMap em) HorizontalVarianceY j"
proof -
  have "less_s (mahalanobisDistance (point_z p) (at_l (rawMap em) Elevation i)
           (at_l (rawMap em) Variance i)) (mahalanobisDistanceThreshold em)"
    using assms(2) by (rule below_threshold)
  from add_point_same_surface [OF assms(1) this, of X pv]
  show ?thesis
    by (simp add: at_l_set_at add_s_commute [of pv "at_l (rawMap em) Variance i"]
          mul_s_commute [of pv "at_l (rawMap em) Variance i"])
qed

text \<open>
  The example of the specification: elevation 1.0 and variance 0.01, a point of height 1.05
  and variance 0.01, threshold 3.0; the discrepancy is 0.5, the new elevation 1.025 and the
  new variance 0.005.
\<close>

theorem add_point_within_threshold_witness:
  "at_l (rawMap (add_point example_externals example_map (example_point (Finite (21 / 20)))
      (Finite (1 / 100)) (0, 0))) Elevation (0, 0) = Finite (41 / 40) \<and>
   at_l (rawMap (add_point example_externals example_map (example_point (Finite (21 / 20)))
      (Finite (1 / 100)) (0, 0))) Variance (0, 0) = Finite (1 / 200) \<and>
   at_l (rawMap (add_point example_externals example_map (example_point (Finite (21 / 20)))
      (Finite (1 / 100)) (0, 0))) Color (0, 0) = Finite 255 \<and>
   at_l (rawMap (add_point example_externals example_map (example_point (Finite (21 / 20)))
      (Finite (1 / 100)) (0, 0))) HorizontalVarianceX (0, 0) = Finite 1"
proof -
  have near: "less_s (discrepancy (point_z (example_point (Finite (21 / 20))))
      (at_l (rawMap example_map) Elevation (0, 0)) (at_l (rawMap example_map) Variance (0, 0)))
      (mahalanobisDistanceThreshold example_map)"
    by (simp add: example_cell example_parameters example_point_def example_discrepancy_near)
  show ?thesis
    using add_point_within_threshold [OF example_valid near, of example_externals
        "Finite (1 / 100)" "(0, 0)"]
    by (simp add: example_cell example_point_def example_externals_def)
qed

text \<open>
  Claim C8. For a point whose target cell is valid and whose discrepancy is at or above the
  Mahalanobis threshold, the elevation of the cell is unchanged, its variance grows by
  \<open>multiHeightNoise\<close>, and both horizontal variances are reset to
  \<open>minHorizontalVariance\<close>.
\<close>

theorem add_point_beyond_threshold:
  assumes "isValid (rawMap em) i"
    and "le_s (mahalanobisDistanceThreshold em)
           (discrepancy (point_z p) (at_l (rawMap em) Elevation i)
             (at_l (rawMap em) Variance i))"
  shows "at_l (rawMap (add_point X em p pv i)) Elevation i = at_l (rawMap em) Elevation i \<and>
         at_l (rawMap (add_point X em p pv i)) Variance i =
           add_s (at_l (rawMap em) Variance i) (multiHeightNoise em) \<and>
         at_l (rawMap (add_point X em p pv i)) HorizontalVarianceX i =
           minHorizontalVariance em \<and>
         at_l (rawMap (add_point X em p pv i)) HorizontalVarianceY i =
           minHorizontalVariance em"
proof -
  have "\<not> less_s (mahalanobisDistance (point_z p) (at_l (rawMap em) Elevation i)
           (at_l (rawMap em) Variance i)) (mahalanobisDistanceThreshold em)"
    using assms(2) by (rule at_or_above_threshold)
  from add_point_other_surface(1) [OF assms(1) this, of X pv]
  show ?thesis
    by (simp add: at_l_set_at)
qed

text \<open>
  The example of the specification: the same cell and a point of height 5.0; the discrepancy
  is 40, the elevation stays 1.0 and the variance becomes 0.01 plus the noise.
\<close>

theorem add_point_beyond_threshold_witness:
  "at_l (rawMap (add_point example_externals example_map (example_point (Finite 5))
      (Finite (1 / 100)) (0, 0))) Elevation (0, 0) = Finite 1 \<and>
   at_l (rawMap (add_point example_externals example_map (example_point (Finite 5))
      (Finite (1 / 100)) (0, 0))) Variance (0, 0) = Finite (11 / 1000) \<and>
   at_l (rawMap (add_point example_externals example_map (example_point (Finite 5))
      (Finite (1 / 100)) (0, 0))) HorizontalVarianceX (0, 0) = Finite (1 / 100) \<and>
   at_l (rawMap (add_point example_externals example_map (example_point (Finite 5))
      (Finite (1 / 100)) (0, 0))) HorizontalVarianceY (0, 0) = Finite (1 / 100)"
proof -
  have far: "le_s (mahalanobisDistanceThreshold example_map)
      (discrepancy (point_z (example_point (Finite 5)))
        (at_l (rawMap example_map) Elevation (0, 0)) (at_l (rawMap example_map) Variance (0, 0)))"
    by (simp add: example_cell example_parameters example_point_def example_discrepancy_far)
  show ?thesis
    using add_point_beyond_threshold [OF example_valid far, of example_externals
        "Finite (1 / 100)"]
    by (simp add: example_cell example_parameters)
qed

text \<open>
  Claim C10. In the outlier branch (valid target cell, discrepancy at or above the
  threshold) the point leaves the color layer and the elevation layer unchanged: nothing
  but the variance and the two horizontal variances of the target cell is modified, in
  either map.
\<close>

theorem add_point_beyond_threshold_frame:
  assumes "isValid (rawMap em) i"
    and "le_s (mahalanobisDistanceThreshold em)
           (discrepancy (point_z p) (at_l (rawMap em) Elevation i)
             (at_l (rawMap em) Variance i))"
  shows "(\<forall>j. at_l (rawMap (add_point X em p pv i)) Color j = at_l (rawMap em) Color j) \<and>
         (\<forall>j. at_l (rawMap (add_point X em p pv i)) Elevation j = at_l (rawMap em) Elevation j) \<and>
         (\<forall>l j. \<not> (j = i \<and> (l = Variance \<or> l = HorizontalVarianceX \<or> l = HorizontalVarianceY))
            \<longrightarrow> at_l (rawMap (add_point X em p pv i)) l j = at_l (rawMap em) l j) \<and>
         timestamp (rawMap (add_point X em p pv i)) = timestamp (rawMap em) \<and>
         fusedMap (add_point X em p pv i) = fusedMap em"
proof -
  have "\<not> less_s (mahalanobisDistance (point_z p) (at_l (rawMap em) Elevation i)
           (at_l (rawMap em) Variance i)) (mahalanobisDistanceThreshold em)"
    using assms(2) by (rule at_or_above_threshold)
  note branch = add_point_other_surface [OF assms(1) this, of X pv]
  have other: "at_l (rawMap (add_point X em p pv i)) l j = at_l (rawMap em) l j"
    if "\<not> (j = i \<and> (l = Variance \<or> l = HorizontalVarianceX \<or> l = HorizontalVarianceY))"
    for l j
    using that by (cases "j = i") (simp_all add: branch(1) at_l_set_at)
  have "timestamp (rawMap (add_point X em p pv i)) = timestamp (rawMap em)"
    by (simp add: branch(1) timestamp_set_at)
  with other branch(2) show ?thesis
    by simp
qed

theorem add_point_beyond_threshold_frame_witness:
  "at_l (rawMap (add_point example_externals example_map (example_point (Finite 5))
      (Finite (1 / 100)) (0, 0))) Color (0, 0) = Finite 7 \<and>
   at_l (rawMap (add_point example_externals example_map (example_point (Finite 5))
      (Finite (1 / 100)) (0, 0))) Elevation (0, 0) = Finite 1 \<and>
   timestamp (rawMap (add_point example_externals example_map (example_point (Finite 5))
      (Finite (1 / 100)) (0, 0))) = 5"
proof -
  have far: "le_s (mahalanobisDistanceThreshold example_map)
      (discrepancy (point_z (example_point (Finite 5)))
        (at_l (rawMap example_map) Elevation (0, 0)) (at_l (rawMap example_map) Variance (0, 0)))"
    by (simp add: example_cell example_parameters example_point_def example_discrepancy_far)
  have stamp: "timestamp (rawMap example_map) = 5"
    by (simp add: example_map_def example_raw_def)
  show ?thesis
    using add_point_beyond_threshold_frame [OF example_valid far, of example_externals
        "Finite (1 / 100)"]
    by (simp add: example_cell stamp)
qed

section \<open>The exogenous update\<close>

lemma at_l_set_layer:
  "at_l (set_layer g l m) l' i = (if l' = l then coeff m i else at_l g l' i)"
  by (simp add: at_l_def set_layer_def)

lemma at_l_clean:
  "at_l (rawMap (clean em)) l i =
     (case l of
        Variance \<Rightarrow> VarianceClampOperator (minVariance em) (maxVariance em)
                      (at_l (rawMap em) Variance i)
      | HorizontalVarianceX \<Rightarrow>
          VarianceClampOperator (minHorizontalVariance em) (maxHorizontalVariance em)
            (at_l (rawMap em) HorizontalVarianceX i)
      | HorizontalVarianceY \<Rightarrow>
          VarianceClampOperator (minHorizontalVariance em) (maxHorizontalVariance em)
            (at_l (rawMap em) HorizontalVarianceY i)
      | _ \<Rightarrow> at_l (rawMap em) l i)"
  by (cases l) (simp_all add: clean_def Let_def set_layer_def get_def at_l_def unaryExpr_def)

lemma clean_parameters:
  "fusedMap (clean em) = fusedMap em"
  "minVariance (clean em) = minVariance em"
  "timestamp (rawMap (clean em)) = timestamp (rawMap em)"
  by (simp_all add: clean_def Let_def set_layer_def)

lemma at_l_setTimestamp: "at_l (setTimestamp g t) l i = at_l g l i"
  by (simp add: at_l_def setTimestamp_def)

lemma update_rejected:
  assumes "\<not> (dims vU = bufferSize (rawMap em) \<and> dims hxU = bufferSize (rawMap em) \<and>
              dims hyU = bufferSize (rawMap em))"
  shows "update em vU hxU hyU t = (False, em)"
  using assms by (simp add: update_def Let_def)

lemma update_accepted:
  assumes "dims vU = bufferSize (rawMap em) \<and> dims hxU = bufferSize (rawMap em) \<and>
              dims hyU = bufferSize (rawMap em)"
  shows "update em vU hxU hyU t =
     (True, (clean (added em vU hxU hyU))
        \<lparr>rawMap := setTimestamp (rawMap (clean (added em vU hxU hyU))) t\<rparr>)"
  using assms by (simp add: update_def Let_def added_def get_def set_layer_def)

lemma at_l_added:
  "at_l (rawMap (added em vU hxU hyU)) l i =
     (case l of
        Variance \<Rightarrow> add_s (at_l (rawMap em) Variance i) (coeff vU i)
      | HorizontalVarianceX \<Rightarrow> add_s (at_l (rawMap em) HorizontalVarianceX i) (coeff hxU i)
      | HorizontalVarianceY \<Rightarrow> add_s (at_l (rawMap em) HorizontalVarianceY i) (coeff hyU i)
      | _ \<Rightarrow> at_l (rawMap em) l i)"
  by (cases l) (simp_all add: added_def at_l_def set_layer_def get_def plus_assign_def)

lemma added_parameters:
  "fusedMap (added em vU hxU hyU) = fusedMap em"
  "minVariance (added em vU hxU hyU) = minVariance em"
  "maxVariance (added em vU hxU hyU) = maxVariance em"
  "minHorizontalVariance (added em vU hxU hyU) = minHorizontalVariance em"
  "maxHorizontalVariance (added em vU hxU hyU) = maxHorizontalVariance em"
  by (simp_all add: added_def)

lemma example_bounds:
  "minVariance example_map = Finite (1 / 10000)"
  "maxVariance example_map = Finite (1 / 20)"
  by (simp_all add: example_map_def)

text \<open>
  Claim C4. An exogenous update is three delta matrices and a time. If the dimensions of
  one of the matrices differ from the dimensions of the cell grid of the raw map, the
  update returns failure and changes nothing, no layer and no timestamp. Otherwise it adds
  the deltas coefficient by coefficient to the variance layer and the two horizontal
  variance layers, applies the variance clamp, sets the timestamp of the raw map to the
  given time, and returns success; elevation, color and the fused map stay as they are.
\<close>

theorem update_contract:
  "(\<not> (dims vU = bufferSize (rawMap em) \<and> dims hxU = bufferSize (rawMap em) \<and>
        dims hyU = bufferSize (rawMap em))
      \<longrightarrow> update em vU hxU hyU t = (False, em)) \<and>
   (dims vU = bufferSize (rawMap em) \<and> dims hxU = bufferSize (rawMap em) \<and>
        dims hyU = bufferSize (rawMap em)
      \<longrightarrow> fst (update em vU hxU hyU t) = True \<and>
          timestamp (rawMap (snd (update em vU hxU hyU t))) = t \<and>
          at_l (rawMap (snd (update em vU hxU hyU t))) Variance i =
            VarianceClampOperator (minVariance em) (maxVariance em)
              (add_s (at_l (rawMap em) Variance i) (coeff vU i)) \<and>
          at_l (rawMap (snd (update em vU hxU hyU t))) HorizontalVarianceX i =
            VarianceClampOperator (minHorizontalVariance em) (maxHorizontalVariance em)
              (add_s (at_l (rawMap em) HorizontalVarianceX i) (coeff hxU i)) \<and>
          at_l (rawMap (snd (update em vU hxU hyU t))) HorizontalVarianceY i =
            VarianceClampOperator (minHorizontalVariance em) (maxHorizontalVariance em)
              (add_s (at_l (rawMap em) HorizontalVarianceY i) (coeff hyU i)) \<and>
          at_l (rawMap (snd (update em vU hxU hyU t))) Elevation i =
            at_l (rawMap em) Elevation i \<and>
          at_l (rawMap (snd (update em vU hxU hyU t))) Color i = at_l (rawMap em) Color i \<and>
          fusedMap (snd (update em vU hxU hyU t)) = fusedMap em)"
proof (intro conjI impI)
  assume "\<not> (dims vU = bufferSize (rawMap em) \<and> dims hxU = bufferSize (rawMap em) \<and>
        dims hyU = bufferSize (rawMap em))"
  then show "update em vU hxU hyU t = (False, em)"
    by (rule update_rejected)
next
  assume ok: "dims vU = bufferSize (rawMap em) \<and> dims hxU = bufferSize (rawMap em) \<and>
        dims hyU = bufferSize (rawMap em)"
  note u = update_accepted [OF ok, of t]
  show "fst (update em vU hxU hyU t) = True"
    by (simp add: u)
  show "timestamp (rawMap (snd (update em vU hxU hyU t))) = t"
    by (simp add: u setTimestamp_def)
  show "at_l (rawMap (snd (update em vU hxU hyU t))) Variance i =
            VarianceClampOperator (minVariance em) (maxVariance em)
              (add_s (at_l (rawMap em) Variance i) (coeff vU i))"
    by (simp add: u at_l_setTimestamp at_l_clean at_l_added added_parameters)
  show "at_l (rawMap (snd (update em vU hxU hyU t))) HorizontalVarianceX i =
            VarianceClampOperator (minHorizontalVariance em) (maxHorizontalVariance em)
              (add_s (at_l (rawMap em) HorizontalVarianceX i) (coeff hxU i))"
    by (simp add: u at_l_setTimestamp at_l_clean at_l_added added_parameters)
  show "at_l (rawMap (snd (update em vU hxU hyU t))) HorizontalVarianceY i =
            VarianceClampOperator (minHorizontalVariance em) (maxHorizontalVariance em)
              (add_s (at_l (rawMap em) HorizontalVarianceY i) (coeff hyU i))"
    by (simp add: u at_l_setTimestamp at_l_clean at_l_added added_parameters)
  show "at_l (rawMap (snd (update em vU hxU hyU t))) Elevation i =
            at_l (rawMap em) Elevation i"
    by (simp add: u at_l_setTimestamp at_l_clean at_l_added)
  show "at_l (rawMap (snd (update em vU hxU hyU t))) Color i = at_l (rawMap em) Color i"
    by (simp add: u at_l_setTimestamp at_l_clean at_l_added)
  show "fusedMap (snd (update em vU hxU hyU t)) = fusedMap em"
    by (simp add: u clean_parameters added_parameters)
qed


theorem update_contract_witness:
  "update example_map (constant_matrix (2, 2) (Finite (1 / 100)))
      (constant_matrix (1, 2) (Finite 0)) (constant_matrix (1, 2) (Finite 0)) 9
     = (False, example_map) \<and>
   fst (update example_map (constant_matrix (1, 2) (Finite (1 / 100)))
      (constant_matrix (1, 2) (Finite 0)) (constant_matrix (1, 2) (Finite 0)) 9) = True \<and>
   timestamp (rawMap (snd (update example_map (constant_matrix (1, 2) (Finite (1 / 100)))
      (constant_matrix (1, 2) (Finite 0)) (constant_matrix (1, 2) (Finite 0)) 9))) = 9 \<and>
   at_l (rawMap (snd (update example_map (constant_matrix (1, 2) (Finite (1 / 100)))
      (constant_matrix (1, 2) (Finite 0)) (constant_matrix (1, 2) (Finite 0)) 9)))
      Variance (0, 0) = Finite (1 / 50)"
proof -
  have size: "bufferSize (rawMap example_map) = (1, 2)"
    by (simp add: example_map_def example_raw_def)
  have wrong: "\<not> (dims (constant_matrix (2, 2) (Finite (1 / 100))) = bufferSize (rawMap example_map)
      \<and> dims (constant_matrix (1, 2) (Finite 0)) = bufferSize (rawMap example_map)
      \<and> dims (constant_matrix (1, 2) (Finite 0)) = bufferSize (rawMap example_map))"
    by (simp add: size dims_def constant_matrix_def)
  have right: "dims (constant_matrix (1, 2) (Finite (1 / 100))) = bufferSize (rawMap example_map)
      \<and> dims (constant_matrix (1, 2) (Finite 0)) = bufferSize (rawMap example_map)
      \<and> dims (constant_matrix (1, 2) (Finite 0)) = bufferSize (rawMap example_map)"
    by (simp add: size dims_def constant_matrix_def)
  have clamped: "VarianceClampOperator (minVariance example_map) (maxVariance example_map)
      (add_s (at_l (rawMap example_map) Variance (0, 0))
        (coeff (constant_matrix (1, 2) (Finite (1 / 100))) (0, 0))) = Finite (1 / 50)"
    by (simp add: example_cell example_bounds VarianceClampOperator_def constant_matrix_def)
  show ?thesis
    using update_contract [of "constant_matrix (2, 2) (Finite (1 / 100))" example_map
        "constant_matrix (1, 2) (Finite 0)" "constant_matrix (1, 2) (Finite 0)" 9 "(0, 0)"]
      update_contract [of "constant_matrix (1, 2) (Finite (1 / 100))" example_map
        "constant_matrix (1, 2) (Finite 0)" "constant_matrix (1, 2) (Finite 0)" 9 "(0, 0)"]
      wrong right clamped
    by simp
qed

section \<open>The fusion engine\<close>

lemma clearAll_invalid: "\<not> isValid (clearAll g) i"
  by (simp add: isValid_def clearAll_def at_l_def setConstant_def)

lemma resetFusedData_invalid: "\<not> isValid (fusedMap (resetFusedData em)) i"
  by (simp add: resetFusedData_def isValid_def clearAll_def at_l_def setConstant_def
      setTimestamp_def)

lemma resetFusedData_timestamp: "timestamp (fusedMap (resetFusedData em)) = 0"
  by (simp add: resetFusedData_def setTimestamp_def)

lemma fuse_started:
  assumes "any_a areaSize"
  shows "fuse X em topLeft areaSize =
    (True, em\<lparr>fusedMap := setTimestamp
       (fuse_area X (rawMap em)
          (fusedMap (if timestamp (fusedMap em) \<noteq> timestamp (rawMap em)
                     then resetFusedData em else em))
          (SubmapIterator X (rawMap em) topLeft areaSize))
       (timestamp (rawMap em))\<rparr>)"
  using assms by (simp add: fuse_def Let_def resetFusedData_def)

lemma example_stale: "timestamp (fusedMap example_map) \<noteq> timestamp (rawMap example_map)"
  by (simp add: example_map_def example_raw_def example_fused_def)

lemma example_fused_valid: "isValid (fusedMap example_map) (0, 0)"
  by (simp add: isValid_def at_l_def example_map_def example_fused_def example_layer_def)

text \<open>
  Claim C5. When a fusion pass starts with a fused map whose timestamp differs from the
  timestamp of the snapshot of the raw map, every cell of the fused map is invalidated and
  its timestamp is reset to 0 before any cell of the requested area is fused: the loop
  over the area runs on the reset map. After the area is processed the timestamp of the
  fused map is the timestamp of the snapshot.
\<close>

theorem fuse_resets_stale_fused_map:
  assumes "any_a areaSize"
    and "timestamp (fusedMap em) \<noteq> timestamp (rawMap em)"
  shows "(\<forall>i. \<not> isValid (fusedMap (resetFusedData em)) i) \<and>
         timestamp (fusedMap (resetFusedData em)) = 0 \<and>
         fusedMap (snd (fuse X em topLeft areaSize)) =
           setTimestamp
             (fuse_area X (rawMap em) (fusedMap (resetFusedData em))
                (SubmapIterator X (rawMap em) topLeft areaSize))
             (timestamp (rawMap em)) \<and>
         timestamp (fusedMap (snd (fuse X em topLeft areaSize))) = timestamp (rawMap em)"
  using assms(2)
  by (simp add: fuse_started [OF assms(1)] resetFusedData_invalid resetFusedData_timestamp
      setTimestamp_def)

theorem fuse_resets_stale_fused_map_witness:
  "isValid (fusedMap example_map) (0, 0) \<and>
   \<not> isValid (fusedMap (resetFusedData example_map)) (0, 0) \<and>
   timestamp (fusedMap (resetFusedData example_map)) = 0 \<and>
   timestamp (fusedMap (snd (fuse example_externals example_map (0, 0) (1, 2)))) = 5"
proof -
  have area: "any_a (1, 2)"
    by (simp add: any_a_def)
  have "timestamp (rawMap example_map) = 5"
    by (simp add: example_map_def example_raw_def)
  then show ?thesis
    using fuse_resets_stale_fused_map [OF area example_stale, of example_externals "(0, 0)"]
      example_fused_valid
    by (simp add: setTimestamp_def)
qed

text \<open>
  Claim C3 asks that a request for an area with zero extent in at least one dimension
  returns false and leaves the fused map as it is. The guard of the source,
  \<^verbatim>\<open>size.any() == 0\<close>, holds only when both extents are zero: a request with
  exactly one zero extent passes it, returns true and stamps the fused map with the time
  of the raw map (after clearing it when it was stale).
\<close>

theorem fuse_zero_extent_in_one_dimension:
  assumes "n \<noteq> 0"
  shows "fst (fuse X em topLeft (0, n)) = True \<and>
         timestamp (fusedMap (snd (fuse X em topLeft (0, n)))) = timestamp (rawMap em) \<and>
         fst (fuse X em topLeft (n, 0)) = True \<and>
         timestamp (fusedMap (snd (fuse X em topLeft (n, 0)))) = timestamp (rawMap em)"
proof -
  have "any_a (0, n)" and "any_a (n, 0)"
    using assms by (simp_all add: any_a_def)
  then show ?thesis
    by (simp add: fuse_started setTimestamp_def)
qed

theorem fuse_zero_extent_in_one_dimension_witness:
  "fst (fuse example_externals example_map (0, 0) (0, 2)) = True \<and>
   timestamp (fusedMap (snd (fuse example_externals example_map (0, 0) (0, 2)))) = 5 \<and>
   timestamp (fusedMap example_map) = 3"
proof -
  have "timestamp (rawMap example_map) = 5" and "timestamp (fusedMap example_map) = 3"
    by (simp_all add: example_map_def example_raw_def example_fused_def)
  then show ?thesis
    using fuse_zero_extent_in_one_dimension [of 2 example_externals example_map "(0, 0)"]
    by simp
qed

text \<open>The statistics of a single gathered cell, and the cell \<open>(0, 0)\<close> of the small map.\<close>

lemma fused_mean_single:
  "w \<noteq> 0 \<Longrightarrow> fused_mean [Finite w] [Finite e] = Finite e"
  by (simp add: fused_mean_def sum_s_def)

lemma fused_variance_single:
  "w \<noteq> 0 \<Longrightarrow> fused_variance [Finite w] [Finite e] [Finite v] = Finite (v * v)"
  by (simp add: fused_variance_def fused_mean_def sum_s_def pow2_s_def sub_s_def
      distrib_left add_divide_distrib)

lemma example_submap:
  "getSubmapInformation example_externals (getPosition example_externals (rawMap example_map) (0, 0))
     (mul_s (Finite 4) (sqrt_s (at_l (rawMap example_map) HorizontalVarianceX (0, 0))),
      mul_s (Finite 4) (sqrt_s (at_l (rawMap example_map) HorizontalVarianceY (0, 0))))
     (mapLength (rawMap example_map)) (mapPosition (rawMap example_map))
     (resolution (rawMap example_map)) (bufferSize (rawMap example_map))
     (bufferStartIndex (rawMap example_map))
   = ((0, 0), (1, 1), (Finite 0, Finite 0), (Finite 1, Finite 1), (0, 0))"
  by (simp add: example_externals_def index_of_position_def example_map_def example_raw_def)

lemma example_candidates:
  "filter (isValid (rawMap example_map))
     (SubmapIterator example_externals (rawMap example_map) (0, 0) (1, 1)) = [(0, 0)]"
  by (simp add: example_externals_def submap_indices_def example_valid)

lemma example_weight:
  "cell_weight example_externals (rawMap example_map) (Finite 0, Finite 0) (0, 0) = Finite 1"
proof -
  have res: "resolution (rawMap example_map) = Finite 1"
    by (simp add: example_map_def example_raw_def)
  have pos: "getPosition example_externals (rawMap example_map) (0, 0) = (Finite 0, Finite 0)"
    by (simp add: example_externals_def)
  have upper: "cumulativeDistributionFunction example_externals (Finite (1 / 2)) (Finite 0)
      (Finite 1) = Finite 1"
    by (simp add: cumulativeDistributionFunction_def example_externals_def erfc_limits_def
        sub_s_def)
  have lower: "cumulativeDistributionFunction example_externals (Finite (- (1 / 2))) (Finite 0)
      (Finite 1) = Finite 0"
    by (simp add: cumulativeDistributionFunction_def example_externals_def erfc_limits_def
        sub_s_def)
  show ?thesis
    by (simp add: cell_weight_def Let_def res pos example_cell sub_s_def upper lower)
qed

text \<open>
  Claim C1 asks that the fused elevation is the weighted mean \<open>\<mu> = \<Sigma>(w e) / \<Sigma>w\<close> and
  the fused variance the weighted second moment \<open>\<Sigma>(w (v + e\<^sup>2)) / \<Sigma>w - \<mu>\<^sup>2\<close> of the raw
  elevations \<open>e\<close> and raw variances \<open>v\<close>. The source squares the variances
  (\<^verbatim>\<open>variances.square() + means.square()\<close>): for two cells of weight 1/2 with
  elevations 1 and 3 and variance 1/2 each, the mean is 2 and the source computes the
  variance 5/4, where the second moment is 3/2.
\<close>

theorem fused_variance_squares_the_variances:
  "fused_mean [Finite (1 / 2), Finite (1 / 2)] [Finite 1, Finite 3] = Finite 2 \<and>
   fused_variance [Finite (1 / 2), Finite (1 / 2)] [Finite 1, Finite 3]
     [Finite (1 / 2), Finite (1 / 2)] = Finite (5 / 4) \<and>
   second_moment_variance [Finite (1 / 2), Finite (1 / 2)] [Finite 1, Finite 3]
     [Finite (1 / 2), Finite (1 / 2)] = Finite (3 / 2)"
  by (simp add: fused_mean_def fused_variance_def second_moment_variance_def sum_s_def
      pow2_s_def sub_s_def)

text \<open>
  Claim C2 asks that a cell whose only valid neighbour within its footprint is itself is
  fused to its own raw elevation, raw variance and raw color. With one gathered cell of
  finite, nonzero weight the source writes the raw elevation and the raw color, and the
  square of the raw variance.
\<close>

theorem fuse_cell_single_candidate:
  assumes "\<not> isValid fused i"
    and "isValid rawMapCopy i"
    and "getSubmapInformation X (getPosition X rawMapCopy i)
           (mul_s (Finite 4) (sqrt_s (at_l rawMapCopy HorizontalVarianceX i)),
            mul_s (Finite 4) (sqrt_s (at_l rawMapCopy HorizontalVarianceY i)))
           (mapLength rawMapCopy) (mapPosition rawMapCopy) (resolution rawMapCopy)
           (bufferSize rawMapCopy) (bufferStartIndex rawMapCopy)
         = (topLeft, submapSize, submapPosition, submapLength, requested)"
    and "filter (isValid rawMapCopy) (SubmapIterator X rawMapCopy topLeft submapSize) = [i]"
    and "cell_weight X rawMapCopy submapPosition i = Finite w"
    and "w \<noteq> 0"
    and "at_l rawMapCopy Elevation i = Finite e"
    and "at_l rawMapCopy Variance i = Finite v"
  shows "at_l (fuse_cell X rawMapCopy fused i) Elevation i = Finite e \<and>
         at_l (fuse_cell X rawMapCopy fused i) Variance i = Finite (v * v) \<and>
         at_l (fuse_cell X rawMapCopy fused i) Color i = at_l rawMapCopy Color i"
  using assms
  by (simp add: fuse_cell_def Let_def fused_mean_single fused_variance_single at_l_set_at)


text \<open>
  On the small map the raw variance of the cell \<open>(0, 0)\<close> is 0.01 and its fused variance
  0.0001.
\<close>

theorem fuse_cell_single_candidate_witness:
  "at_l (rawMap example_map) Variance (0, 0) = Finite (1 / 100) \<and>
   at_l (fuse_cell example_externals (rawMap example_map)
      (fusedMap (resetFusedData example_map)) (0, 0)) Variance (0, 0) = Finite (1 / 10000) \<and>
   at_l (fuse_cell example_externals (rawMap example_map)
      (fusedMap (resetFusedData example_map)) (0, 0)) Elevation (0, 0) = Finite 1 \<and>
   at_l (fuse_cell example_externals (rawMap example_map)
      (fusedMap (resetFusedData example_map)) (0, 0)) Color (0, 0) = Finite 7"
proof -
  have nonzero: "(1::real) \<noteq> 0"
    by simp
  show ?thesis
    using fuse_cell_single_candidate [OF resetFusedData_invalid example_valid example_submap
        example_candidates example_weight nonzero example_cell(1) example_cell(2)]
    by (simp add: example_cell)
qed

section \<open>Further properties\<close>

lemma example_hole: "\<not> isValid (rawMap example_map) (0, 1)"
  by (simp add: isValid_def at_l_def example_map_def example_raw_def example_layer_def)

lemma add_loop_returns:
  "length ps + i \<le> length vars \<Longrightarrow> \<exists>em'. add_loop X ps vars i em = Some em'"
proof (induction ps arbitrary: i em)
  case Nil
  then show ?case by simp
next
  case (Cons p ps)
  then have "i < length vars" and "length ps + Suc i \<le> length vars"
    by simp_all
  with Cons.IH show ?case
    by (cases "getIndex X (rawMap em) (point_x p, point_y p)") simp_all
qed

text \<open>
  A point whose target cell is a hole initialises it: the elevation is the height of the
  point, the variance the variance supplied with the point, both horizontal variances
  \<open>minHorizontalVariance\<close>, the color the color of the point.
\<close>

theorem add_point_initialises_hole:
  assumes "\<not> isValid (rawMap em) i"
  shows "at_l (rawMap (add_point X em p pv i)) Elevation i = point_z p \<and>
         at_l (rawMap (add_point X em p pv i)) Variance i = pv \<and>
         at_l (rawMap (add_point X em p pv i)) HorizontalVarianceX i = minHorizontalVariance em \<and>
         at_l (rawMap (add_point X em p pv i)) HorizontalVarianceY i = minHorizontalVariance em \<and>
         at_l (rawMap (add_point X em p pv i)) Color i = colorVectorToValue X (getRGBVector3i p)"
  using assms by (simp add: add_point_def Let_def at_l_set_at)

theorem add_point_initialises_hole_witness:
  "at_l (rawMap (add_point example_externals example_map (example_point (Finite 1))
      (Finite (1 / 50)) (0, 1))) Elevation (0, 1) = Finite 1 \<and>
   at_l (rawMap (add_point example_externals example_map (example_point (Finite 1))
      (Finite (1 / 50)) (0, 1))) Variance (0, 1) = Finite (1 / 50) \<and>
   at_l (rawMap (add_point example_externals example_map (example_point (Finite 1))
      (Finite (1 / 50)) (0, 1))) HorizontalVarianceX (0, 1) = Finite (1 / 100) \<and>
   at_l (rawMap (add_point example_externals example_map (example_point (Finite 1))
      (Finite (1 / 50)) (0, 1))) Color (0, 1) = Finite 255"
  using add_point_initialises_hole [OF example_hole, of example_externals
      "example_point (Finite 1)" "Finite (1 / 50)"]
  by (simp add: example_parameters example_point_def example_externals_def)

text \<open>
  The fusion of a cell does nothing when the cell is already valid in the fused map, or
  is a hole of the snapshot: a fused cell is not computed twice, and a raw hole stays a
  fused hole.
\<close>

theorem fuse_cell_skips:
  assumes "isValid fused i \<or> \<not> isValid rawMapCopy i"
  shows "fuse_cell X rawMapCopy fused i = fused"
  using assms by (auto simp: fuse_cell_def)

theorem fuse_cell_skips_witness:
  "fuse_cell example_externals (rawMap example_map) (fusedMap (resetFusedData example_map)) (0, 1)
     = fusedMap (resetFusedData example_map) \<and>
   fuse_cell example_externals (rawMap example_map) (fusedMap example_map) (0, 0)
     = fusedMap example_map"
  using fuse_cell_skips [of "fusedMap (resetFusedData example_map)" "(0, 1)"
      "rawMap example_map" example_externals]
    fuse_cell_skips [of "fusedMap example_map" "(0, 0)" "rawMap example_map" example_externals]
    example_hole example_fused_valid
  by simp

text \<open>A request with both extents zero returns false and changes nothing.\<close>

theorem fuse_empty_request:
  "fuse X em topLeft (0, 0) = (False, em)"
  by (simp add: fuse_def any_a_def)

text \<open>
  With a variance for every point, \<open>add\<close> returns true and stamps the raw map with a
  thousand times the stamp of the cloud, which is in microseconds.
\<close>

theorem add_returns:
  assumes "length (points pointCloud) \<le> length pointCloudVariances"
  shows "\<exists>em'. add X em pointCloud pointCloudVariances = Some (True, em') \<and>
           timestamp (rawMap em') = 1000 * stamp pointCloud"
proof -
  from assms obtain em1
    where "add_loop X (points pointCloud) pointCloudVariances 0 em = Some em1"
    using add_loop_returns [of "points pointCloud" 0 pointCloudVariances X em] by auto
  then show ?thesis
    by (simp add: add_def Let_def setTimestamp_def)
qed

theorem add_returns_witness:
  "\<exists>em'. add example_externals example_map
       \<lparr>points = [example_point (Finite 5)], stamp = 7\<rparr> [Finite (1 / 100)] = Some (True, em') \<and>
     timestamp (rawMap em') = 7000"
  using add_returns [of "\<lparr>points = [example_point (Finite 5)], stamp = 7\<rparr>" "[Finite (1 / 100)]"
      example_externals example_map]
  by simp

end
